theory Spec2Isabelle
  imports Main "HOL-Library.Sublist"
begin

section \<open>JavaScript strings\<close>

text \<open>
  A string is the list of its code units. The texts of the program are ASCII; a
  \<^typ>\<open>char\<close> stands for a code unit below 256, and text beyond that range is not
  modelled. \<open>String.prototype.trim\<close> removes white space and line terminators at both
  ends: below 256 these are TAB, LF, VT, FF, CR, SPACE and NBSP.
\<close>

definition nl :: string where
  "nl = [CHR 0x0A]"

definition dq :: string where
  "dq = [CHR 0x22]"

definition is_ws :: "char \<Rightarrow> bool" where
  "is_ws c = (c \<in> set [CHR 0x09, CHR 0x0A, CHR 0x0B, CHR 0x0C, CHR 0x0D, CHR 0x20, CHR 0xA0])"

definition trim :: "string \<Rightarrow> string" where
  "trim s = rev (dropWhile is_ws (rev (dropWhile is_ws s)))"

text \<open>
  \<open>v || d\<close> for an optional string \<open>v\<close>: \<open>undefined\<close> and the empty string are falsy.
\<close>

definition truthy :: "string option \<Rightarrow> bool" where
  "truthy v = (case v of None \<Rightarrow> False | Some s \<Rightarrow> s \<noteq> [])"

definition or_else :: "string option \<Rightarrow> string \<Rightarrow> string" where
  "or_else v d = (case v of None \<Rightarrow> d | Some s \<Rightarrow> if s = [] then d else s)"

text \<open>\<open>Array.prototype.join\<close> on an array of strings.\<close>

fun join :: "string \<Rightarrow> string list \<Rightarrow> string" where
  "join sep [] = []"
| "join sep [x] = x"
| "join sep (x # y # ys) = x @ sep @ join sep (y # ys)"

text \<open>
  \<open>\w\<close> of a regular expression without flags: a letter, a digit or the underscore.
\<close>

definition is_word :: "char \<Rightarrow> bool" where
  "is_word c = (let n = (of_char c :: nat) in
     (48 \<le> n \<and> n \<le> 57) \<or> (65 \<le> n \<and> n \<le> 90) \<or> n = 95 \<or> (97 \<le> n \<and> n \<le> 122))"

text \<open>The rest of \<open>s\<close> after the literal prefix \<open>p\<close>, if \<open>s\<close> starts with it.\<close>

fun stripPrefix :: "string \<Rightarrow> string \<Rightarrow> string option" where
  "stripPrefix [] s = Some s"
| "stripPrefix (p # ps) [] = None"
| "stripPrefix (p # ps) (c # cs) = (if p = c then stripPrefix ps cs else None)"

section \<open>types.ts\<close>

text \<open>
  The union types \<open>AspectRatio\<close> and \<open>BrandTone\<close> are closed enumerations of string
  literals; \<open>ratio_str\<close> and \<open>tone_str\<close> give the literal. Fields that several
  interfaces share carry the interface as a suffix (\<open>prompt_cfg\<close>, \<open>prompt_img\<close>), and
  \<open>id\<close>, \<open>name\<close> and \<open>text\<close> are suffixed as well.
\<close>

record StylePreset =
  id_style :: string
  name_style :: string
  description :: string
  promptModifier :: string
  thumbnail :: string

record GeneratedImage =
  id_img :: string
  data_img :: string
  prompt_img :: string
  timestamp :: nat
  aspectRatio_img :: string

datatype AspectRatio = R1_1 | R16_9 | R9_16 | R4_3 | R3_4

datatype BrandTone = Default | Minimalist | Luxury | Energetic | Corporate | Playful

fun ratio_str :: "AspectRatio \<Rightarrow> string" where
  "ratio_str R1_1 = ''1:1''"
| "ratio_str R16_9 = ''16:9''"
| "ratio_str R9_16 = ''9:16''"
| "ratio_str R4_3 = ''4:3''"
| "ratio_str R3_4 = ''3:4''"

fun tone_str :: "BrandTone \<Rightarrow> string" where
  "tone_str Default = ''default''"
| "tone_str Minimalist = ''minimalist''"
| "tone_str Luxury = ''luxury''"
| "tone_str Energetic = ''energetic''"
| "tone_str Corporate = ''corporate''"
| "tone_str Playful = ''playful''"

record GenerationConfig =
  prompt_cfg :: string
  negativePrompt_cfg :: "string option"
  aspectRatio_cfg :: AspectRatio
  styleId :: string
  referenceImage_cfg :: "string option"

datatype AppState = IDLE | GENERATING | SUCCESS | ERROR

section \<open>The external generation service\<close>

text \<open>
  \<open>ai.models.generateContent\<close> is the one external call of the three clients. Its
  request carries a model name, the contents (one text, or a list of parts) and, for
  images, the aspect ratio of \<open>config.imageConfig\<close>. Every field of the response is
  optional, as the client library declares them. The service is a parameter \<open>ai\<close> of
  each client: it answers a request with a response (\<open>Inr\<close>) or throws (\<open>Inl\<close>).
\<close>

datatype error = Error string | TypeError

record Blob =
  data :: "string option"
  mimeType :: "string option"

record Part =
  inlineData :: "Blob option"
  text_part :: "string option"

datatype Contents = Text string | Parts "Part list"

record GenerateContentParameters =
  model :: string
  contents :: Contents
  imageConfig_aspectRatio :: "AspectRatio option"

record Content =
  parts :: "Part list option"

record Candidate =
  content :: "Content option"

record GenerateContentResponse =
  candidates :: "Candidate list option"
  text_response :: "string option"

type_synonym GenAI = "GenerateContentParameters \<Rightarrow> error + GenerateContentResponse"

section \<open>services/geminiService.ts: enhancePrompt\<close>

text \<open>
  The \<open>switch\<close> statements compare the argument with string literals, and their
  \<open>default\<close> branch takes \<open>'default'\<close> and every other value; the arguments \<open>tone\<close>
  and \<open>ratio\<close> are therefore strings here.
\<close>

definition systemInstruction :: string where
  "systemInstruction = ''You are an expert visual prompt engineer for generative AI.''"

definition toneInstruction :: "string \<Rightarrow> string" where
  "toneInstruction tone =
    (if tone = ''minimalist'' then
       ''Brand Tone: 'Minimalist'. Focus on clean lines, negative space, desaturated palettes, soft diffused lighting, and simplicity.''
     else if tone = ''luxury'' then
       ''Brand Tone: 'Luxury'. Emphasize elegance, premium materials (gold, marble, silk), dramatic rim lighting, depth of field, and sophistication.''
     else if tone = ''energetic'' then
       ''Brand Tone: 'Energetic'. Use dynamic composition, motion blur, vibrant neon or saturated colors, high contrast, and action-oriented angles.''
     else if tone = ''corporate'' then
       ''Brand Tone: 'Corporate'. Ensure a professional, trustworthy look with blue/grey tones, structured symmetrical composition, and bright, even studio lighting.''
     else if tone = ''playful'' then
       ''Brand Tone: 'Playful'. Use soft rounded shapes, pastel or bright primary colors, warm high-key lighting, and a whimsical or inviting atmosphere.''
     else
       ''Brand Tone: High-quality professional photography with balanced composition.'')"

text \<open>
  The second \<open>switch\<close> assigns \<open>compositionInstruction\<close> and \<open>ratioKeywords\<close> together.
\<close>

definition ratioSwitch :: "string \<Rightarrow> string \<times> string" where
  "ratioSwitch ratio =
    (if ratio = ''16:9'' then
       (''Composition: Wide cinematic shot, rule of thirds, emphasize horizontal scale. Describe a wide-angle view.'',
        ''wide shot, cinematic composition, panoramic view, 16:9 aspect ratio'')
     else if ratio = ''9:16'' then
       (''Composition: Vertical portrait framing, tall subject matter, emphasize height and vertical leading lines. Describe a tall, vertical view.'',
        ''vertical shot, portrait mode, tall composition, 9:16 aspect ratio'')
     else if ratio = ''1:1'' then
       (''Composition: Centralized symmetrical framing, balanced square composition, focus on the subject.'',
        ''square composition, symmetrical framing, centered subject'')
     else if ratio = ''4:3'' then
       (''Composition: Classic photography framing, balanced distribution.'',
        ''4:3 standard photography aspect ratio'')
     else if ratio = ''3:4'' then
       (''Composition: Classic portrait photography framing.'',
        ''3:4 standard portrait aspect ratio'')
     else
       (''Composition: Balanced standard photography framing.'',
        ''balanced composition''))"

definition compositionInstruction :: "string \<Rightarrow> string" where
  "compositionInstruction ratio = fst (ratioSwitch ratio)"

definition ratioKeywords :: "string \<Rightarrow> string" where
  "ratioKeywords ratio = snd (ratioSwitch ratio)"

text \<open>
  The template literal of \<open>contents\<close>, cut at its five interpolations: the fixed text
  before the tone instruction, between the interpolations, and the closing quote.
\<close>

definition enhance_task :: string where
  "enhance_task = concat
    ['' '', nl,
     ''      '', nl,
     ''      TASK: Rewrite the user's request into a highly detailed image generation prompt (approx 100-150 words).'', nl,
     nl,
     ''      STEPS:'', nl,
     ''      1. ANALYZE the '', dq, ''User Scenario'', dq, '' and apply specific technical rules:'', nl,
     ''         - IF Product Photography: Use '', dq, ''studio lighting, softbox, 100mm macro lens, 8k textures, neutral background'', dq, ''.'', nl,
     ''         - IF UI/UX Design: Use '', dq, ''clean vector style, flat lay, Behance trending, modern typography, Figma style'', dq, ''.'', nl,
     ''         - IF Character Design: Use '', dq, ''full body shot, expressive pose, octane render, subsurface scattering, rim lighting'', dq, ''.'', nl,
     ''         - IF Architecture: Use '', dq, ''wide angle lens, architectural digest style, golden hour lighting, hyper-realistic materials'', dq, ''.'', nl,
     ''         - IF Landscape/Nature: Use '', dq, ''atmospheric perspective, volumetric lighting, photorealistic, intricate details'', dq, ''.'', nl,
     ''      '', nl,
     ''      2. APPLY Brand Tone: '']"

definition enhance_composition :: string where
  "enhance_composition = concat
    [nl,
     ''      '', nl,
     ''      3. APPLY Composition: '']"

definition enhance_mandatory :: string where
  "enhance_mandatory = concat
    [nl,
     ''      '', nl,
     ''      4. MANDATORY: You MUST include these exact composition keywords in the final prompt text: '', dq]"

definition enhance_output :: string where
  "enhance_output = concat
    [dq, ''.'', nl,
     ''      '', nl,
     ''      5. Output ONLY the raw prompt text. Do not use quotes, markdown, or explanations.'', nl,
     ''      '', nl,
     ''      User request: '', dq]"

definition enhance_contents :: "string \<Rightarrow> string \<Rightarrow> string \<Rightarrow> string" where
  "enhance_contents rawPrompt tone ratio =
     systemInstruction @ enhance_task @ toneInstruction tone @ enhance_composition @
     compositionInstruction ratio @ enhance_mandatory @ ratioKeywords ratio @
     enhance_output @ rawPrompt @ dq"

definition enhance_request :: "string \<Rightarrow> string \<Rightarrow> string \<Rightarrow> GenerateContentParameters" where
  "enhance_request rawPrompt tone ratio =
     \<lparr>model = ''gemini-2.5-flash'',
      contents = Text (enhance_contents rawPrompt tone ratio),
      imageConfig_aspectRatio = None\<rparr>"

text \<open>
  \<open>try { ...; return response.text?.trim() || rawPrompt } catch { return rawPrompt }\<close>
\<close>

definition enhancePrompt :: "GenAI \<Rightarrow> string \<Rightarrow> string \<Rightarrow> string \<Rightarrow> string" where
  "enhancePrompt ai rawPrompt tone ratio =
    (case ai (enhance_request rawPrompt tone ratio) of
       Inl err \<Rightarrow> rawPrompt
     | Inr response \<Rightarrow> or_else (map_option trim (text_response response)) rawPrompt)"

section \<open>services/geminiService.ts: suggestCreativePrompt\<close>

definition suggest_context :: "string \<Rightarrow> string" where
  "suggest_context tone =
    (if tone = ''minimalist'' then
       ''Generate a prompt for a clean, minimalist design object or architectural detail. Focus on white, grey, and soft light.''
     else if tone = ''luxury'' then
       ''Generate a prompt for a high-end fashion editorial or luxury product shot (watch, perfume, car). Focus on gold, black, and dramatic light.''
     else if tone = ''energetic'' then
       ''Generate a prompt for a dynamic sports event or cyberpunk scene with motion blur and neon colors.''
     else if tone = ''corporate'' then
       ''Generate a prompt for a modern office concept or abstract tech visualization suitable for a business presentation.''
     else if tone = ''playful'' then
       ''Generate a prompt for a cute 3D character or colorful landscape in a style like Pixar or Nintendo.''
     else
       ''Generate a vivid, highly detailed visual prompt (sci-fi, fantasy, or cinematic photography).'')"

definition ratioHint :: "string \<Rightarrow> string" where
  "ratioHint ratio =
    (if ratio = ''9:16'' then ''The subject MUST fit a vertical frame (tall).''
     else if ratio = ''16:9'' then ''The subject MUST fit a wide panoramic frame.''
     else [])"

definition suggest_request :: "string \<Rightarrow> string \<Rightarrow> GenerateContentParameters" where
  "suggest_request tone ratio =
     \<lparr>model = ''gemini-2.5-flash'',
      contents = Text (concat
        [''Task: '', suggest_context tone, '' '', nl,
         ''      Constraint: '', ratioHint ratio, nl,
         ''      Output ONLY the image prompt text. Keep it descriptive but under 50 words.'']),
      imageConfig_aspectRatio = None\<rparr>"

definition floating_city :: string where
  "floating_city =
     ''A futuristic city floating in the clouds at golden hour, hyper-realistic, 8k resolution.''"

definition cyberpunk_detective :: string where
  "cyberpunk_detective =
     ''A cyberpunk detective standing in neon rain, digital art style, high contrast.''"

definition suggestCreativePrompt :: "GenAI \<Rightarrow> string \<Rightarrow> string \<Rightarrow> string" where
  "suggestCreativePrompt ai tone ratio =
    (case ai (suggest_request tone ratio) of
       Inl err \<Rightarrow> cyberpunk_detective
     | Inr response \<Rightarrow> or_else (map_option trim (text_response response)) floating_city)"

section \<open>services/geminiService.ts: generateImage\<close>

definition modelName :: string where
  "modelName = ''gemini-2.5-flash-image''"

definition fullPrompt :: "GenerationConfig \<Rightarrow> string" where
  "fullPrompt config =
     prompt_cfg config @ ''. '' @
     (case negativePrompt_cfg config of
        None \<Rightarrow> []
      | Some negativePrompt \<Rightarrow>
          if negativePrompt \<noteq> [] then ''Exclude: '' @ negativePrompt @ ''.'' else [])"

text \<open>
  \<open>referenceImage.replace(/^data:image\/\w+;base64,/, "")\<close>. The pattern is anchored
  at the start; \<open>\w+\<close> takes the longest run of word characters, and since \<open>;\<close> is
  not one of them no shorter run can match, so the match is decided by what follows
  that run. Without a match the string is returned as it is.
\<close>

definition base64Data :: "string \<Rightarrow> string" where
  "base64Data referenceImage =
    (case stripPrefix ''data:image/'' referenceImage of
       None \<Rightarrow> referenceImage
     | Some rest \<Rightarrow>
         if takeWhile is_word rest = [] then referenceImage
         else (case stripPrefix '';base64,'' (dropWhile is_word rest) of
                 None \<Rightarrow> referenceImage
               | Some payload \<Rightarrow> payload))"

text \<open>The array \<open>parts\<close> of the request: the reference image, if any, then the text.\<close>

definition request_parts :: "GenerationConfig \<Rightarrow> Part list" where
  "request_parts config =
     (case referenceImage_cfg config of
        None \<Rightarrow> []
      | Some referenceImage \<Rightarrow>
          if referenceImage \<noteq> [] then
            [\<lparr>inlineData = Some \<lparr>data = Some (base64Data referenceImage),
                                  mimeType = Some ''image/png''\<rparr>,
              text_part = None\<rparr>]
          else []) @
     [\<lparr>inlineData = None, text_part = Some (fullPrompt config)\<rparr>]"

definition image_request :: "GenerationConfig \<Rightarrow> GenerateContentParameters" where
  "image_request config =
     \<lparr>model = modelName,
      contents = Parts (request_parts config),
      imageConfig_aspectRatio = Some (aspectRatio_cfg config)\<rparr>"

text \<open>
  The loop over the parts of the first candidate. Its test is
  \<open>part.inlineData && part.inlineData.data\<close>: the part has inline data whose payload
  is a non-empty string. The first such part ends the loop.
\<close>

definition image_data :: "Part \<Rightarrow> string option" where
  "image_data part =
    (case inlineData part of
       None \<Rightarrow> None
     | Some blob \<Rightarrow>
         (case data blob of
            None \<Rightarrow> None
          | Some d \<Rightarrow> if d \<noteq> [] then Some d else None))"

fun scan_parts :: "Part list \<Rightarrow> string option" where
  "scan_parts [] = None"
| "scan_parts (part # rest) =
     (case image_data part of
        Some d \<Rightarrow> Some (''data:image/png;base64,'' @ d)
      | None \<Rightarrow> scan_parts rest)"

definition no_image :: error where
  "no_image = Error ''No image data found in response.''"

text \<open>
  \<open>response.candidates && response.candidates[0].content.parts\<close>: an absent list of
  candidates is falsy, an empty array is truthy. \<open>candidates[0]\<close> of an empty array is
  \<open>undefined\<close>, and so is an absent \<open>content\<close>; reading a property of \<open>undefined\<close>
  throws a \<open>TypeError\<close>. The \<open>catch\<close> block logs and rethrows.
\<close>

definition generateImage :: "GenAI \<Rightarrow> GenerationConfig \<Rightarrow> error + string" where
  "generateImage ai config =
    (case ai (image_request config) of
       Inl err \<Rightarrow> Inl err
     | Inr response \<Rightarrow>
        (case candidates response of
           None \<Rightarrow> Inl no_image
         | Some [] \<Rightarrow> Inl TypeError
         | Some (candidate # _) \<Rightarrow>
            (case content candidate of
               None \<Rightarrow> Inl TypeError
             | Some c \<Rightarrow>
                (case parts c of
                   None \<Rightarrow> Inl no_image
                 | Some ps \<Rightarrow>
                    (case scan_parts ps of
                       Some url \<Rightarrow> Inr url
                     | None \<Rightarrow> Inl no_image)))))"

section \<open>components/StyleSelector.tsx: the catalog\<close>

definition STYLES :: "StylePreset list" where
  "STYLES =
    [\<lparr>id_style = ''none'', name_style = ''Natural / Raw'',
      description = ''No specific style filter.'',
      promptModifier = ''Photorealistic, natural lighting, high fidelity'',
      thumbnail = ''https://picsum.photos/id/28/100/100''\<rparr>,
     \<lparr>id_style = ''cinematic'', name_style = ''Cinematic'',
      description = ''Movie-like lighting and composition.'',
      promptModifier = ''Cinematic lighting, 8k resolution, photorealistic, depth of field, anamorphic lens flare, movie still'',
      thumbnail = ''https://picsum.photos/id/435/100/100''\<rparr>,
     \<lparr>id_style = ''cyberpunk'', name_style = ''Cyberpunk'',
      description = ''Neon lights and futuristic tech.'',
      promptModifier = ''Cyberpunk 2077 style, neon lights, futuristic, high tech low life, vibrant colors, volumetric fog, synthetic'',
      thumbnail = ''https://picsum.photos/id/532/100/100''\<rparr>,
     \<lparr>id_style = ''watercolor'', name_style = ''Watercolor'',
      description = ''Soft and artistic.'',
      promptModifier = ''Watercolor painting, soft edges, artistic, wet on wet, pastel colors, paper texture, masterpiece'',
      thumbnail = ''https://picsum.photos/id/104/100/100''\<rparr>,
     \<lparr>id_style = ''3d-render'', name_style = ''3D Render'',
      description = ''Clean Octane render style.'',
      promptModifier = ''3D render, Octane render, unreal engine 5, ray tracing, clean composition, plastic and glass materials, studio lighting'',
      thumbnail = ''https://picsum.photos/id/8/100/100''\<rparr>,
     \<lparr>id_style = ''anime'', name_style = ''Anime'',
      description = ''Japanese animation style.'',
      promptModifier = ''Anime style, Studio Ghibli inspired, cel shaded, vibrant, detailed background, 2D animation'',
      thumbnail = ''https://picsum.photos/id/453/100/100''\<rparr>]"

section \<open>App.tsx: the session state and handleGenerate\<close>

text \<open>
  The state variables of the component, one field for each \<open>useState\<close>.
\<close>

record App =
  prompt :: string
  negativePrompt :: string
  aspectRatio :: AspectRatio
  selectedStyleId :: string
  brandTone :: BrandTone
  referenceImage :: "string option"
  appState :: AppState
  isTextLoading :: bool
  errorMessage :: "string option"
  justRefined :: bool
  history :: "GeneratedImage list"
  currentImage :: "GeneratedImage option"
  isSidebarOpen :: bool

text \<open>
  What \<open>handleGenerate\<close> reads from the browser: \<open>window.innerWidth\<close>,
  \<open>crypto.randomUUID()\<close> and \<open>Date.now()\<close>.
\<close>

record Env =
  innerWidth :: nat
  randomUUID :: string
  now :: nat

definition styleMod :: "string \<Rightarrow> string" where
  "styleMod sid =
    (case find (\<lambda>s. id_style s = sid) STYLES of
       None \<Rightarrow> []
     | Some style \<Rightarrow> if id_style style \<noteq> ''none'' then promptModifier style else [])"

fun toneModifiers :: "BrandTone \<Rightarrow> string" where
  "toneModifiers Default = []"
| "toneModifiers Minimalist =
     ''minimalist aesthetic, clean lines, uncluttered, negative space, neutral color palette, refined''"
| "toneModifiers Luxury =
     ''luxury aesthetic, premium textures, gold and marble accents, dramatic rim lighting, sophisticated, high-end''"
| "toneModifiers Energetic =
     ''high energy, dynamic motion, vibrant saturated colors, bold contrast, motion blur, impactful''"
| "toneModifiers Corporate =
     ''professional corporate style, trustworthy blue and grey tones, structured composition, bright even lighting''"
| "toneModifiers Playful =
     ''playful aesthetic, soft rounded shapes, pastel colors, warm lighting, whimsical, inviting''"

text \<open>
  \<open>[styleMod, toneMod, prompt].filter(p => p.trim() !== '').join('. ')\<close>, as a
  function of the selected style, the brand tone and the prompt of the user.
\<close>

definition finalPrompt :: "string \<Rightarrow> BrandTone \<Rightarrow> string \<Rightarrow> string" where
  "finalPrompt sid tone userPrompt =
     join ''. '' (filter (\<lambda>p. trim p \<noteq> []) [styleMod sid, toneModifiers tone, userPrompt])"

definition config :: "App \<Rightarrow> GenerationConfig" where
  "config s =
     \<lparr>prompt_cfg = finalPrompt (selectedStyleId s) (brandTone s) (prompt s),
      negativePrompt_cfg = Some (negativePrompt s),
      aspectRatio_cfg = aspectRatio s,
      styleId = selectedStyleId s,
      referenceImage_cfg = (if truthy (referenceImage s) then referenceImage s else None)\<rparr>"

definition newImage :: "Env \<Rightarrow> App \<Rightarrow> string \<Rightarrow> GeneratedImage" where
  "newImage env s base64Image =
     \<lparr>id_img = randomUUID env,
      data_img = base64Image,
      prompt_img = prompt s,
      timestamp = now env,
      aspectRatio_img = ratio_str (aspectRatio s)\<rparr>"

definition generation_failed :: string where
  "generation_failed = ''Image generation failed. Please check your prompt or try again.''"

text \<open>
  \<open>handleGenerate\<close> is a closure of one render. \<open>c\<close> is the state of that render:
  every state variable the function reads (\<open>prompt\<close>, \<open>referenceImage\<close>,
  \<open>errorMessage\<close>, ...) is the constant of \<open>c\<close>, also after a setter has run. The
  setters write the live state, which is \<open>live\<close> when the action starts, and no other
  action runs before this one completes.

  The Generate button runs the handler of the latest render, for which \<open>c\<close> is
  \<open>live\<close>. The Ctrl+Enter listener is registered again only when one of \<open>prompt\<close>,
  \<open>referenceImage\<close>, \<open>selectedStyleId\<close>, \<open>aspectRatio\<close>, \<open>negativePrompt\<close> and
  \<open>brandTone\<close> changes, so the handler it runs may be the one of an earlier render,
  which agrees with the live state on these six variables and on nothing else:
  \<open>closure_of c live\<close>.
\<close>

definition closure_of :: "App \<Rightarrow> App \<Rightarrow> bool" where
  "closure_of c live =
    (prompt c = prompt live \<and> referenceImage c = referenceImage live \<and>
     selectedStyleId c = selectedStyleId live \<and> aspectRatio c = aspectRatio live \<and>
     negativePrompt c = negativePrompt live \<and> brandTone c = brandTone live)"

text \<open>
  The function is cut at its \<open>await\<close>:
  \<^item> \<open>handleGenerate_begin\<close>, the code before the \<open>try\<close>: \<open>None\<close> when the guard returns,
    otherwise the state after the setters and the configuration passed to
    \<open>generateImage\<close>;
  \<^item> \<open>handleGenerate_settle\<close>, the \<open>try\<close> and \<open>catch\<close> blocks, on the outcome of the call;
  \<^item> \<open>handleGenerate_finally\<close>, the \<open>finally\<close> block, which tests the \<open>errorMessage\<close> of
    the closure.
\<close>

definition handleGenerate_begin :: "Env \<Rightarrow> App \<Rightarrow> App \<Rightarrow> (App \<times> GenerationConfig) option" where
  "handleGenerate_begin env c live =
    (if trim (prompt c) = [] \<and> \<not> truthy (referenceImage c) then None
     else Some
       (live\<lparr>appState := GENERATING,
             errorMessage := None,
             isSidebarOpen := (if innerWidth env \<le> 768 then False else isSidebarOpen live)\<rparr>,
        config c))"

definition handleGenerate_settle :: "Env \<Rightarrow> App \<Rightarrow> App \<Rightarrow> error + string \<Rightarrow> App" where
  "handleGenerate_settle env c live outcome =
    (case outcome of
       Inr base64Image \<Rightarrow>
         live\<lparr>history := newImage env c base64Image # history live,
              currentImage := Some (newImage env c base64Image),
              appState := SUCCESS\<rparr>
     | Inl err \<Rightarrow>
         live\<lparr>appState := ERROR, errorMessage := Some generation_failed\<rparr>)"

definition handleGenerate_finally :: "App \<Rightarrow> App \<Rightarrow> App" where
  "handleGenerate_finally c live =
    (if truthy (errorMessage c) then live\<lparr>appState := ERROR\<rparr>
     else live\<lparr>appState := IDLE\<rparr>)"

definition handleGenerate :: "Env \<Rightarrow> GenAI \<Rightarrow> App \<Rightarrow> App \<Rightarrow> App" where
  "handleGenerate env ai c live =
    (case handleGenerate_begin env c live of
       None \<Rightarrow> live
     | Some (started, cfg) \<Rightarrow>
         handleGenerate_finally c (handleGenerate_settle env c started (generateImage ai cfg)))"

section \<open>The composition contract in the words of the specification\<close>

text \<open>
  The contract of the Prompt Composer as the specification words it: the style
  modifier if the style is in the catalog and is not \<open>none\<close>, the tone keywords if the
  tone is not the default, and the raw prompt, joined in this order with every empty
  fragment left out. It is compared with \<open>finalPrompt\<close> below.
\<close>

definition spec_finalPrompt :: "string \<Rightarrow> string \<Rightarrow> BrandTone \<Rightarrow> string" where
  "spec_finalPrompt rawUserPrompt sid tone =
     join ''. '' (filter (\<lambda>fragment. fragment \<noteq> [])
       [(case find (\<lambda>s. id_style s = sid) STYLES of
           None \<Rightarrow> []
         | Some style \<Rightarrow> if sid \<noteq> ''none'' then promptModifier style else []),
        (if tone \<noteq> Default then toneModifiers tone else []),
        rawUserPrompt])"

section \<open>Example inputs\<close>

definition text_only :: "string \<Rightarrow> Part" where
  "text_only t = \<lparr>inlineData = None, text_part = Some t\<rparr>"

definition inline_image :: "string \<Rightarrow> Part" where
  "inline_image d =
     \<lparr>inlineData = Some \<lparr>data = Some d, mimeType = Some ''image/png''\<rparr>, text_part = None\<rparr>"

definition answer_parts :: "Part list \<Rightarrow> GenAI" where
  "answer_parts ps = (\<lambda>request.
     Inr \<lparr>candidates = Some [\<lparr>content = Some \<lparr>parts = Some ps\<rparr>\<rparr>], text_response = None\<rparr>)"

definition answer_text :: "string option \<Rightarrow> GenAI" where
  "answer_text t = (\<lambda>request. Inr \<lparr>candidates = None, text_response = t\<rparr>)"

definition answer_no_candidates :: GenAI where
  "answer_no_candidates = (\<lambda>request. Inr \<lparr>candidates = Some [], text_response = None\<rparr>)"

definition service_down :: GenAI where
  "service_down = (\<lambda>request. Inl (Error ''fetch failed''))"

definition desktop :: Env where
  "desktop = \<lparr>innerWidth = 1280, randomUUID = ''0b5e2c1a-7d43-4f0e-9a61-3c8f2d5b7e90'', now = 1700000000000\<rparr>"

definition bicycle :: App where
  "bicycle =
     \<lparr>prompt = ''a red bicycle'', negativePrompt = [], aspectRatio = R16_9,
      selectedStyleId = ''cinematic'', brandTone = Luxury, referenceImage = None,
      appState = IDLE, isTextLoading = False, errorMessage = None, justRefined = False,
      history = [], currentImage = None, isSidebarOpen = True\<rparr>"

definition earlier :: GeneratedImage where
  "earlier =
     \<lparr>id_img = ''5f0c9d3e-2a17-4b68-8e4f-6d1a0c7b9e52'', data_img = ''data:image/png;base64,R0lGODdh'',
      prompt_img = ''a blue kettle'', timestamp = 1699999000000, aspectRatio_img = ''1:1''\<rparr>"

definition returning :: App where
  "returning = bicycle\<lparr>history := [earlier], currentImage := Some earlier\<rparr>"

text \<open>
  The render after a failed generation: its handler stays the one of the Ctrl+Enter
  listener when the error banner is dismissed.
\<close>

definition after_failure :: App where
  "after_failure = bicycle\<lparr>errorMessage := Some generation_failed\<rparr>"

section \<open>Facts about the string functions\<close>

lemma stripPrefix_append: "stripPrefix p (p @ r) = Some r"
  by (induction p) simp_all

lemma stripPrefix_Some: "stripPrefix p s = Some r \<longleftrightarrow> s = p @ r"
  by (induction p s rule: stripPrefix.induct) auto

lemma trim_Nil: "trim [] = []"
  by (simp add: trim_def)

lemma trim_Cons_nonblank: "\<not> is_ws c \<Longrightarrow> trim (c # s) \<noteq> []"
  by (auto simp: trim_def)

lemma not_word_semicolon: "\<not> is_word CHR '';''"
  by (simp add: is_word_def)

text \<open>
  A string that starts with the header \<open>data:image/<word characters>;base64,\<close> loses
  exactly that header.
\<close>

lemma base64Data_header:
  assumes "w \<noteq> []" and "list_all is_word w"
  shows "base64Data (''data:image/'' @ w @ '';base64,'' @ payload) = payload"
proof -
  have all: "\<forall>c\<in>set w. is_word c"
    using assms(2) by (simp add: list_all_iff)
  have "stripPrefix ''data:image/'' (''data:image/'' @ w @ '';base64,'' @ payload)
          = Some (w @ '';base64,'' @ payload)"
    by (rule stripPrefix_append)
  moreover have "takeWhile is_word (w @ '';base64,'' @ payload) = w"
    using all not_word_semicolon by simp
  moreover have "dropWhile is_word (w @ '';base64,'' @ payload) = '';base64,'' @ payload"
    using all not_word_semicolon by simp
  moreover have "stripPrefix '';base64,'' ('';base64,'' @ payload) = Some payload"
    by (rule stripPrefix_append)
  ultimately show ?thesis
    using assms(1) by (simp add: base64Data_def del: stripPrefix.simps)
qed

text \<open>Only such a string is changed.\<close>

lemma base64Data_changes:
  assumes "base64Data r \<noteq> r"
  shows "\<exists>w payload. w \<noteq> [] \<and> list_all is_word w \<and> r = ''data:image/'' @ w @ '';base64,'' @ payload"
proof -
  from assms obtain rest where rest: "stripPrefix ''data:image/'' r = Some rest"
    by (auto simp: base64Data_def split: option.splits)
  with assms have w: "takeWhile is_word rest \<noteq> []"
    by (auto simp: base64Data_def split: option.splits if_splits)
  with assms rest obtain payload where
    payload: "stripPrefix '';base64,'' (dropWhile is_word rest) = Some payload"
    by (auto simp: base64Data_def split: option.splits if_splits)
  have "rest = takeWhile is_word rest @ dropWhile is_word rest"
    by simp
  with payload have "rest = takeWhile is_word rest @ '';base64,'' @ payload"
    by (simp add: stripPrefix_Some)
  with rest have "r = ''data:image/'' @ takeWhile is_word rest @ '';base64,'' @ payload"
    by (simp add: stripPrefix_Some)
  moreover have "list_all is_word (takeWhile is_word rest)"
    by (auto simp: list_all_iff dest: set_takeWhileD)
  ultimately show ?thesis
    using w by blast
qed


section \<open>Facts about the response scan\<close>

lemma scan_parts_None: "scan_parts ps = None \<longleftrightarrow> list_all (\<lambda>p. image_data p = None) ps"
  by (induction ps) (auto split: option.splits)

lemma scan_parts_first:
  "list_all (\<lambda>p. image_data p = None) before \<Longrightarrow> image_data part = Some d \<Longrightarrow>
   scan_parts (before @ part # rest) = Some (''data:image/png;base64,'' @ d)"
  by (induction before) simp_all

section \<open>Facts about the catalog and the tone keywords\<close>

lemma styleMod_cases:
  "styleMod sid =
    (if sid = ''cinematic'' then promptModifier (STYLES ! 1)
     else if sid = ''cyberpunk'' then promptModifier (STYLES ! 2)
     else if sid = ''watercolor'' then promptModifier (STYLES ! 3)
     else if sid = ''3d-render'' then promptModifier (STYLES ! 4)
     else if sid = ''anime'' then promptModifier (STYLES ! 5)
     else [])"
  by (simp add: styleMod_def STYLES_def)

lemma styleMod_blank: "trim (styleMod sid) = [] \<longleftrightarrow> styleMod sid = []"
  by (simp add: styleMod_cases STYLES_def trim_Cons_nonblank is_ws_def trim_Nil)

lemma toneModifiers_blank: "trim (toneModifiers tone) = [] \<longleftrightarrow> toneModifiers tone = []"
  by (cases tone) (simp_all add: trim_Cons_nonblank is_ws_def trim_Nil)

lemma toneModifiers_empty: "toneModifiers tone = [] \<longleftrightarrow> tone = Default"
  by (cases tone) simp_all

lemma styleMod_spec:
  "styleMod sid =
    (case find (\<lambda>s. id_style s = sid) STYLES of
       None \<Rightarrow> []
     | Some style \<Rightarrow> if sid \<noteq> ''none'' then promptModifier style else [])"
  by (simp add: styleMod_def STYLES_def)

lemma styleMod_unknown: "sid \<notin> id_style ` set STYLES \<Longrightarrow> styleMod sid = []"
  by (simp add: styleMod_cases STYLES_def)

lemma styleMod_catalog:
  "style \<in> set STYLES \<Longrightarrow> id_style style \<noteq> ''none'' \<Longrightarrow>
   styleMod (id_style style) = promptModifier style"
  by (auto simp: styleMod_cases STYLES_def)

text \<open>
  The style and tone fragments are empty or start with a letter, so \<open>trim\<close> decides
  only whether the prompt is kept.
\<close>

lemma kept_fragments:
  "filter (\<lambda>p. trim p \<noteq> []) [styleMod sid, toneModifiers tone, p] =
   filter (\<lambda>fragment. fragment \<noteq> [])
     [styleMod sid, toneModifiers tone, if trim p = [] then [] else p]"
  by (auto simp: styleMod_blank toneModifiers_blank trim_Nil)

section \<open>Facts about handleGenerate\<close>

lemma closure_of_refl: "closure_of s s"
  by (simp add: closure_of_def)

lemma closure_config: "closure_of c live \<Longrightarrow> config c = config live"
  by (simp add: closure_of_def config_def)

lemma closure_newImage: "closure_of c live \<Longrightarrow> newImage env c b = newImage env live b"
  by (simp add: closure_of_def newImage_def)

lemma begin_guard:
  "closure_of c live \<Longrightarrow> trim (prompt live) \<noteq> [] \<or> truthy (referenceImage live) \<Longrightarrow>
   handleGenerate_begin env c live =
     Some (live\<lparr>appState := GENERATING, errorMessage := None,
                isSidebarOpen := (if innerWidth env \<le> 768 then False else isSidebarOpen live)\<rparr>,
           config live)"
  by (auto simp: handleGenerate_begin_def closure_config) (simp_all add: closure_of_def)

lemma bicycle_guard: "trim (prompt bicycle) \<noteq> [] \<or> truthy (referenceImage bicycle)"
  by (simp add: bicycle_def trim_def is_ws_def)

lemma returning_guard: "trim (prompt returning) \<noteq> [] \<or> truthy (referenceImage returning)"
  by (simp add: returning_def bicycle_def trim_def is_ws_def)

section \<open>The Session Orchestrator\<close>

text \<open>
  C1 (as amended). From any state, a generate request that passes the guard (a prompt
  that is not blank, or a reference image) sets the state to generating and clears
  the error message. When the image-generation call returns an image the state is set
  to success; on any failure it is set to error and the fixed user-facing message is
  set. The action then ends with its \<open>finally\<close> block, which writes the state once
  more: the error message of the action is the fixed message after a failure and
  none after a success, and a generation that succeeded, run by a handler whose
  render had no error message (for the Generate button: no message was showing at the
  click), is observed in the idle state once the action completes.
\<close>

theorem handleGenerate_state_machine:
  assumes "closure_of c live"
    and "trim (prompt live) \<noteq> [] \<or> truthy (referenceImage live)"
  shows "\<exists>started. handleGenerate_begin env c live = Some (started, config live) \<and>
      appState started = GENERATING \<and> errorMessage started = None \<and>
      appState (handleGenerate_settle env c started (Inr base64Image)) = SUCCESS \<and>
      appState (handleGenerate_settle env c started (Inl err)) = ERROR \<and>
      errorMessage (handleGenerate_settle env c started (Inl err)) = Some generation_failed \<and>
      handleGenerate env ai c live =
        handleGenerate_finally c
          (handleGenerate_settle env c started (generateImage ai (config live))) \<and>
      errorMessage (handleGenerate env ai c live) =
        (case generateImage ai (config live) of Inl e \<Rightarrow> Some generation_failed | Inr b \<Rightarrow> None) \<and>
      (\<not> truthy (errorMessage c) \<and> generateImage ai (config live) = Inr base64Image \<longrightarrow>
         appState (handleGenerate env ai c live) = IDLE)"
  using begin_guard [OF assms, of env]
  by (auto simp: handleGenerate_def handleGenerate_settle_def handleGenerate_finally_def
      split: sum.splits)

theorem handleGenerate_state_machine_witness:
  "appState (handleGenerate desktop (answer_parts [inline_image ''iVBORw0KGgo='']) bicycle bicycle) = IDLE \<and>
   errorMessage (handleGenerate desktop (answer_parts [inline_image ''iVBORw0KGgo='']) bicycle bicycle) = None \<and>
   errorMessage (handleGenerate desktop service_down bicycle bicycle) = Some generation_failed"
proof -
  have ok: "generateImage (answer_parts [inline_image ''iVBORw0KGgo='']) (config bicycle) =
      Inr ''data:image/png;base64,iVBORw0KGgo=''"
    by (simp add: generateImage_def answer_parts_def inline_image_def image_data_def)
  have down: "generateImage service_down (config bicycle) = Inl (Error ''fetch failed'')"
    by (simp add: generateImage_def service_down_def)
  have quiet: "\<not> truthy (errorMessage bicycle)"
    by (simp add: bicycle_def truthy_def)
  show ?thesis
    using handleGenerate_state_machine [OF closure_of_refl bicycle_guard, of desktop
        "''data:image/png;base64,iVBORw0KGgo=''" "Error ''fetch failed''"
        "answer_parts [inline_image ''iVBORw0KGgo='']"]
      handleGenerate_state_machine [OF closure_of_refl bicycle_guard, of desktop
        "''data:image/png;base64,iVBORw0KGgo=''" "Error ''fetch failed''" service_down]
    by (auto simp: ok down quiet)
qed

text \<open>
  As the claim states it, the state observed after a successful generation would be
  success. Started with the Generate button from the idle state with no error
  message showing, a successful generation does not end in success.
\<close>

theorem handleGenerate_final_state_counterexample:
  "appState (handleGenerate desktop (answer_parts [inline_image ''iVBORw0KGgo='']) bicycle bicycle)
     \<noteq> SUCCESS"
proof -
  have ok: "generateImage (answer_parts [inline_image ''iVBORw0KGgo='']) (config bicycle) =
      Inr ''data:image/png;base64,iVBORw0KGgo=''"
    by (simp add: generateImage_def answer_parts_def inline_image_def image_data_def)
  have quiet: "\<not> truthy (errorMessage bicycle)"
    by (simp add: bicycle_def truthy_def)
  show ?thesis
    by (simp add: handleGenerate_def begin_guard [OF closure_of_refl bicycle_guard]
        handleGenerate_settle_def handleGenerate_finally_def ok quiet)
qed

text \<open>
  The test of the \<open>finally\<close> block reads the closure. Run by the handler of the render
  after a failure, a successful generation that starts with no message showing ends
  in the error state.
\<close>

lemma stale_closure_success_ends_error:
  "closure_of after_failure bicycle \<and> \<not> truthy (errorMessage bicycle) \<and>
   appState (handleGenerate desktop (answer_parts [inline_image ''iVBORw0KGgo=''])
     after_failure bicycle) = ERROR"
proof -
  have closure: "closure_of after_failure bicycle"
    by (simp add: closure_of_def after_failure_def)
  have ok: "generateImage (answer_parts [inline_image ''iVBORw0KGgo='']) (config bicycle) =
      Inr ''data:image/png;base64,iVBORw0KGgo=''"
    by (simp add: generateImage_def answer_parts_def inline_image_def image_data_def)
  have stale: "truthy (errorMessage after_failure)"
    by (simp add: after_failure_def truthy_def generation_failed_def)
  have quiet: "\<not> truthy (errorMessage bicycle)"
    by (simp add: bicycle_def truthy_def)
  show ?thesis
    by (simp add: closure quiet handleGenerate_def begin_guard [OF closure bicycle_guard]
        handleGenerate_settle_def handleGenerate_finally_def ok stale)
qed

text \<open>
  C2. For a generate request that passes the guard, whichever handler runs it: when
  the image-generation call returns an image, exactly one new entry, carrying that
  image, is put in front of the history and is the current image; when the call
  fails, the history and the current image are as before and the error message is
  set.
\<close>

theorem handleGenerate_history:
  assumes "closure_of c live"
    and "trim (prompt live) \<noteq> [] \<or> truthy (referenceImage live)"
  shows "(generateImage ai (config live) = Inr base64Image \<longrightarrow>
      history (handleGenerate env ai c live) = newImage env live base64Image # history live \<and>
      currentImage (handleGenerate env ai c live) = Some (newImage env live base64Image) \<and>
      data_img (newImage env live base64Image) = base64Image) \<and>
     (generateImage ai (config live) = Inl err \<longrightarrow>
      history (handleGenerate env ai c live) = history live \<and>
      currentImage (handleGenerate env ai c live) = currentImage live \<and>
      errorMessage (handleGenerate env ai c live) = Some generation_failed)"
  using begin_guard [OF assms, of env] closure_newImage [OF assms(1), of env base64Image]
  by (simp add: handleGenerate_def handleGenerate_settle_def handleGenerate_finally_def)
    (simp add: newImage_def)

theorem handleGenerate_history_witness:
  "history (handleGenerate desktop (answer_parts [inline_image ''iVBORw0KGgo='']) returning returning) =
     [\<lparr>id_img = ''0b5e2c1a-7d43-4f0e-9a61-3c8f2d5b7e90'',
       data_img = ''data:image/png;base64,iVBORw0KGgo='', prompt_img = ''a red bicycle'',
       timestamp = 1700000000000, aspectRatio_img = ''16:9''\<rparr>,
      earlier] \<and>
   currentImage (handleGenerate desktop (answer_parts [inline_image ''iVBORw0KGgo='']) returning returning) =
     Some \<lparr>id_img = ''0b5e2c1a-7d43-4f0e-9a61-3c8f2d5b7e90'',
       data_img = ''data:image/png;base64,iVBORw0KGgo='', prompt_img = ''a red bicycle'',
       timestamp = 1700000000000, aspectRatio_img = ''16:9''\<rparr> \<and>
   history (handleGenerate desktop service_down returning returning) = [earlier] \<and>
   currentImage (handleGenerate desktop service_down returning returning) = Some earlier \<and>
   errorMessage (handleGenerate desktop service_down returning returning) = Some generation_failed"
proof -
  have ok: "generateImage (answer_parts [inline_image ''iVBORw0KGgo='']) (config returning) =
      Inr ''data:image/png;base64,iVBORw0KGgo=''"
    by (simp add: generateImage_def answer_parts_def inline_image_def image_data_def)
  have down: "generateImage service_down (config returning) = Inl (Error ''fetch failed'')"
    by (simp add: generateImage_def service_down_def)
  have new: "newImage desktop returning ''data:image/png;base64,iVBORw0KGgo='' =
      \<lparr>id_img = ''0b5e2c1a-7d43-4f0e-9a61-3c8f2d5b7e90'',
       data_img = ''data:image/png;base64,iVBORw0KGgo='', prompt_img = ''a red bicycle'',
       timestamp = 1700000000000, aspectRatio_img = ''16:9''\<rparr>"
    by (simp add: newImage_def desktop_def returning_def bicycle_def)
  have before: "history returning = [earlier] \<and> currentImage returning = Some earlier"
    by (simp add: returning_def bicycle_def)
  have success:
    "history (handleGenerate desktop (answer_parts [inline_image ''iVBORw0KGgo='']) returning returning) =
       newImage desktop returning ''data:image/png;base64,iVBORw0KGgo='' # history returning \<and>
     currentImage (handleGenerate desktop (answer_parts [inline_image ''iVBORw0KGgo='']) returning returning) =
       Some (newImage desktop returning ''data:image/png;base64,iVBORw0KGgo='')"
    using ok handleGenerate_history [OF closure_of_refl returning_guard, of
        "answer_parts [inline_image ''iVBORw0KGgo='']" "''data:image/png;base64,iVBORw0KGgo=''"
        desktop "Error ''fetch failed''"]
    by blast
  have failure:
    "history (handleGenerate desktop service_down returning returning) = history returning \<and>
     currentImage (handleGenerate desktop service_down returning returning) = currentImage returning \<and>
     errorMessage (handleGenerate desktop service_down returning returning) = Some generation_failed"
    using down handleGenerate_history [OF closure_of_refl returning_guard, of service_down
        "''data:image/png;base64,iVBORw0KGgo=''" desktop "Error ''fetch failed''"]
    by blast
  show ?thesis
    using success failure by (simp add: new before)
qed

text \<open>
  C9. When the prompt is empty and no reference image is present, \<open>handleGenerate\<close>
  returns at its guard, whichever handler runs it: no request is made, whatever the
  service would answer, and the state is the one it started from. A request is
  made, or the state changed, only when the prompt is not empty or a reference image
  is present.
\<close>

theorem handleGenerate_guard:
  assumes "closure_of c live"
  shows "(prompt live = [] \<and> \<not> truthy (referenceImage live) \<longrightarrow>
      handleGenerate_begin env c live = None \<and> handleGenerate env ai c live = live) \<and>
   (handleGenerate_begin env c live \<noteq> None \<longrightarrow>
      prompt live \<noteq> [] \<or> truthy (referenceImage live)) \<and>
   (handleGenerate env ai c live \<noteq> live \<longrightarrow>
      prompt live \<noteq> [] \<or> truthy (referenceImage live))"
  using assms
  by (auto simp: handleGenerate_def handleGenerate_begin_def trim_Nil closure_of_def)

theorem handleGenerate_guard_witness:
  "handleGenerate_begin desktop (bicycle\<lparr>prompt := []\<rparr>) (bicycle\<lparr>prompt := []\<rparr>) = None \<and>
   handleGenerate desktop (answer_parts [inline_image ''iVBORw0KGgo='']) (bicycle\<lparr>prompt := []\<rparr>)
     (bicycle\<lparr>prompt := []\<rparr>) = bicycle\<lparr>prompt := []\<rparr> \<and>
   handleGenerate_begin desktop bicycle bicycle \<noteq> None \<and> prompt bicycle \<noteq> []"
proof -
  have empty: "prompt (bicycle\<lparr>prompt := []\<rparr>) = [] \<and> \<not> truthy (referenceImage (bicycle\<lparr>prompt := []\<rparr>))"
    by (simp add: bicycle_def truthy_def)
  have started: "handleGenerate_begin desktop bicycle bicycle \<noteq> None"
    by (simp add: begin_guard [OF closure_of_refl bicycle_guard])
  have "\<not> truthy (referenceImage bicycle)"
    by (simp add: bicycle_def truthy_def)
  then show ?thesis
    using empty started
      handleGenerate_guard [OF closure_of_refl, of "bicycle\<lparr>prompt := []\<rparr>" desktop
        "answer_parts [inline_image ''iVBORw0KGgo='']"]
      handleGenerate_guard [OF closure_of_refl, of bicycle desktop
        "answer_parts [inline_image ''iVBORw0KGgo='']"]
    by blast
qed

section \<open>The Prompt Composer\<close>

text \<open>
  C3 (as amended). For every raw prompt, style id and brand tone, the final prompt is
  the join, with the separator \<open>'. '\<close>, of the style modifier (only for a style of the
  catalog other than \<open>none\<close>), the tone keywords (only for a tone other than the
  default) and the raw prompt, in this order, leaving out the style and tone
  fragments when they are empty and the raw prompt when it is empty or consists of
  white space only. A style id that is \<open>none\<close> or not in the catalog gives no style
  fragment. The separator stands only between two fragments that are kept: none is
  put before the first, after the last, or for a fragment that is left out.
\<close>

theorem finalPrompt_composition:
  "finalPrompt sid tone p = spec_finalPrompt (if trim p = [] then [] else p) sid tone \<and>
   (sid = ''none'' \<or> sid \<notin> id_style ` set STYLES \<longrightarrow> styleMod sid = []) \<and>
   finalPrompt sid tone p =
     (let a = styleMod sid; b = toneModifiers tone; c = (if trim p = [] then [] else p) in
      if a = [] then (if b = [] then c else if c = [] then b else b @ ''. '' @ c)
      else if b = [] then (if c = [] then a else a @ ''. '' @ c)
      else if c = [] then a @ ''. '' @ b
      else a @ ''. '' @ b @ ''. '' @ c)"
proof -
  have tone: "(if tone \<noteq> Default then toneModifiers tone else []) = toneModifiers tone"
    by (simp add: toneModifiers_empty)
  have spec: "finalPrompt sid tone p = spec_finalPrompt (if trim p = [] then [] else p) sid tone"
    unfolding finalPrompt_def spec_finalPrompt_def kept_fragments tone styleMod_spec [symmetric] ..
  have no_style: "sid = ''none'' \<or> sid \<notin> id_style ` set STYLES \<longrightarrow> styleMod sid = []"
    by (auto simp: styleMod_unknown) (simp add: styleMod_cases)
  have table: "finalPrompt sid tone p =
     (let a = styleMod sid; b = toneModifiers tone; c = (if trim p = [] then [] else p) in
      if a = [] then (if b = [] then c else if c = [] then b else b @ ''. '' @ c)
      else if b = [] then (if c = [] then a else a @ ''. '' @ c)
      else if c = [] then a @ ''. '' @ b
      else a @ ''. '' @ b @ ''. '' @ c)"
    unfolding finalPrompt_def kept_fragments by (simp add: Let_def)
  show ?thesis
    by (intro conjI spec no_style table)
qed

theorem finalPrompt_composition_witness:
  "finalPrompt ''vaporwave'' Minimalist ''a red bicycle'' =
     ''minimalist aesthetic, clean lines, uncluttered, negative space, neutral color palette, refined. a red bicycle'' \<and>
   finalPrompt ''none'' Default ''a red bicycle'' = ''a red bicycle'' \<and>
   finalPrompt ''cinematic'' Luxury ''a red bicycle'' =
     ''Cinematic lighting, 8k resolution, photorealistic, depth of field, anamorphic lens flare, movie still. luxury aesthetic, premium textures, gold and marble accents, dramatic rim lighting, sophisticated, high-end. a red bicycle''"
proof -
  have unknown: "''vaporwave'' \<notin> id_style ` set STYLES"
    by (simp add: STYLES_def)
  have subject: "trim ''a red bicycle'' \<noteq> []"
    by (simp add: trim_def is_ws_def)
  have vaporwave: "styleMod ''vaporwave'' = []"
    using finalPrompt_composition [of "''vaporwave''" Minimalist "''a red bicycle''"] unknown
    by blast
  have none: "styleMod ''none'' = []"
    using finalPrompt_composition [of "''none''" Default "''a red bicycle''"]
    by blast
  have cinematic: "styleMod ''cinematic'' = promptModifier (STYLES ! 1)"
    by (simp add: styleMod_cases)
  show ?thesis
    using finalPrompt_composition [of "''vaporwave''" Minimalist "''a red bicycle''", THEN conjunct2, THEN conjunct2]
      finalPrompt_composition [of "''none''" Default "''a red bicycle''", THEN conjunct2, THEN conjunct2]
      finalPrompt_composition [of "''cinematic''" Luxury "''a red bicycle''", THEN conjunct2, THEN conjunct2]
    by (simp add: Let_def subject vaporwave none cinematic STYLES_def)
qed

text \<open>
  As the claim states it, only empty fragments are left out. A prompt of one space,
  sent with a reference image, is not empty, yet \<open>finalPrompt\<close> leaves it out.
\<close>

theorem finalPrompt_blank_counterexample:
  "finalPrompt ''none'' Default '' '' \<noteq> spec_finalPrompt '' '' ''none'' Default"
  by (simp add: finalPrompt_def spec_finalPrompt_def styleMod_def STYLES_def trim_def is_ws_def)

section \<open>The Prompt Enhancement Client\<close>

text \<open>
  The instruction holds the text chosen by the first \<open>switch\<close> and the keywords
  chosen by the second.
\<close>

lemma tone_instruction_in:
  "sublist (toneInstruction tone) (enhance_contents rawPrompt tone ratio)"
proof -
  have "sublist (toneInstruction tone)
          ((systemInstruction @ enhance_task) @ toneInstruction tone @
           (enhance_composition @ compositionInstruction ratio @ enhance_mandatory @
            ratioKeywords ratio @ enhance_output @ rawPrompt @ dq))"
    by (rule sublist_appendI)
  then show ?thesis
    by (simp add: enhance_contents_def)
qed

lemma ratio_keywords_in:
  "sublist (ratioKeywords ratio) (enhance_contents rawPrompt tone ratio)"
proof -
  have "sublist (ratioKeywords ratio)
          ((systemInstruction @ enhance_task @ toneInstruction tone @ enhance_composition @
            compositionInstruction ratio @ enhance_mandatory) @ ratioKeywords ratio @
           (enhance_output @ rawPrompt @ dq))"
    by (rule sublist_appendI)
  then show ?thesis
    by (simp add: enhance_contents_def)
qed

text \<open>
  C6. For each of the five named tones, with any ratio, the instruction that
  \<open>enhancePrompt\<close> sends contains the instruction text of that tone verbatim, and for
  the default tone and any other value it contains the default instruction text.
  For each of the five named ratios, with any tone, it contains the keyword string
  of that ratio verbatim, and for any other value it contains the default keywords.
  Together these cover the 25 combinations of a named tone and a named ratio and
  every default or unlisted value. The texts are those of the two \<open>switch\<close>
  statements, written out.
\<close>

theorem enhance_instruction_verbatim:
  "sublist
     ''Brand Tone: 'Minimalist'. Focus on clean lines, negative space, desaturated palettes, soft diffused lighting, and simplicity.''
     (enhance_contents rawPrompt ''minimalist'' ratio) \<and>
   sublist
     ''Brand Tone: 'Luxury'. Emphasize elegance, premium materials (gold, marble, silk), dramatic rim lighting, depth of field, and sophistication.''
     (enhance_contents rawPrompt ''luxury'' ratio) \<and>
   sublist
     ''Brand Tone: 'Energetic'. Use dynamic composition, motion blur, vibrant neon or saturated colors, high contrast, and action-oriented angles.''
     (enhance_contents rawPrompt ''energetic'' ratio) \<and>
   sublist
     ''Brand Tone: 'Corporate'. Ensure a professional, trustworthy look with blue/grey tones, structured symmetrical composition, and bright, even studio lighting.''
     (enhance_contents rawPrompt ''corporate'' ratio) \<and>
   sublist
     ''Brand Tone: 'Playful'. Use soft rounded shapes, pastel or bright primary colors, warm high-key lighting, and a whimsical or inviting atmosphere.''
     (enhance_contents rawPrompt ''playful'' ratio) \<and>
   (tone \<notin> set [''minimalist'', ''luxury'', ''energetic'', ''corporate'', ''playful''] \<longrightarrow>
      sublist ''Brand Tone: High-quality professional photography with balanced composition.''
        (enhance_contents rawPrompt tone ratio)) \<and>
   sublist ''wide shot, cinematic composition, panoramic view, 16:9 aspect ratio''
     (enhance_contents rawPrompt tone ''16:9'') \<and>
   sublist ''vertical shot, portrait mode, tall composition, 9:16 aspect ratio''
     (enhance_contents rawPrompt tone ''9:16'') \<and>
   sublist ''square composition, symmetrical framing, centered subject''
     (enhance_contents rawPrompt tone ''1:1'') \<and>
   sublist ''4:3 standard photography aspect ratio''
     (enhance_contents rawPrompt tone ''4:3'') \<and>
   sublist ''3:4 standard portrait aspect ratio''
     (enhance_contents rawPrompt tone ''3:4'') \<and>
   (ratio \<notin> set [''16:9'', ''9:16'', ''1:1'', ''4:3'', ''3:4''] \<longrightarrow>
      sublist ''balanced composition'' (enhance_contents rawPrompt tone ratio)) \<and>
   contents (enhance_request rawPrompt tone ratio) = Text (enhance_contents rawPrompt tone ratio)"
proof -
  have t0: "sublist
     ''Brand Tone: 'Minimalist'. Focus on clean lines, negative space, desaturated palettes, soft diffused lighting, and simplicity.''
     (enhance_contents rawPrompt ''minimalist'' ratio)"
    using tone_instruction_in [of "''minimalist''" rawPrompt ratio] by (simp add: toneInstruction_def)
  have t1: "sublist
     ''Brand Tone: 'Luxury'. Emphasize elegance, premium materials (gold, marble, silk), dramatic rim lighting, depth of field, and sophistication.''
     (enhance_contents rawPrompt ''luxury'' ratio)"
    using tone_instruction_in [of "''luxury''" rawPrompt ratio] by (simp add: toneInstruction_def)
  have t2: "sublist
     ''Brand Tone: 'Energetic'. Use dynamic composition, motion blur, vibrant neon or saturated colors, high contrast, and action-oriented angles.''
     (enhance_contents rawPrompt ''energetic'' ratio)"
    using tone_instruction_in [of "''energetic''" rawPrompt ratio] by (simp add: toneInstruction_def)
  have t3: "sublist
     ''Brand Tone: 'Corporate'. Ensure a professional, trustworthy look with blue/grey tones, structured symmetrical composition, and bright, even studio lighting.''
     (enhance_contents rawPrompt ''corporate'' ratio)"
    using tone_instruction_in [of "''corporate''" rawPrompt ratio] by (simp add: toneInstruction_def)
  have t4: "sublist
     ''Brand Tone: 'Playful'. Use soft rounded shapes, pastel or bright primary colors, warm high-key lighting, and a whimsical or inviting atmosphere.''
     (enhance_contents rawPrompt ''playful'' ratio)"
    using tone_instruction_in [of "''playful''" rawPrompt ratio] by (simp add: toneInstruction_def)
  have t_other: "tone \<notin> set [''minimalist'', ''luxury'', ''energetic'', ''corporate'', ''playful''] \<longrightarrow>
      sublist ''Brand Tone: High-quality professional photography with balanced composition.''
        (enhance_contents rawPrompt tone ratio)"
    using tone_instruction_in [of tone rawPrompt ratio] by (auto simp: toneInstruction_def)
  have k0: "sublist ''wide shot, cinematic composition, panoramic view, 16:9 aspect ratio''
     (enhance_contents rawPrompt tone ''16:9'')"
    using ratio_keywords_in [of "''16:9''" rawPrompt tone]
    by (simp add: ratioKeywords_def ratioSwitch_def)
  have k1: "sublist ''vertical shot, portrait mode, tall composition, 9:16 aspect ratio''
     (enhance_contents rawPrompt tone ''9:16'')"
    using ratio_keywords_in [of "''9:16''" rawPrompt tone]
    by (simp add: ratioKeywords_def ratioSwitch_def)
  have k2: "sublist ''square composition, symmetrical framing, centered subject''
     (enhance_contents rawPrompt tone ''1:1'')"
    using ratio_keywords_in [of "''1:1''" rawPrompt tone]
    by (simp add: ratioKeywords_def ratioSwitch_def)
  have k3: "sublist ''4:3 standard photography aspect ratio''
     (enhance_contents rawPrompt tone ''4:3'')"
    using ratio_keywords_in [of "''4:3''" rawPrompt tone]
    by (simp add: ratioKeywords_def ratioSwitch_def)
  have k4: "sublist ''3:4 standard portrait aspect ratio''
     (enhance_contents rawPrompt tone ''3:4'')"
    using ratio_keywords_in [of "''3:4''" rawPrompt tone]
    by (simp add: ratioKeywords_def ratioSwitch_def)
  have k_other: "ratio \<notin> set [''16:9'', ''9:16'', ''1:1'', ''4:3'', ''3:4''] \<longrightarrow>
      sublist ''balanced composition'' (enhance_contents rawPrompt tone ratio)"
    using ratio_keywords_in [of ratio rawPrompt tone]
    by (auto simp: ratioKeywords_def ratioSwitch_def)
  have request: "contents (enhance_request rawPrompt tone ratio) = Text (enhance_contents rawPrompt tone ratio)"
    by (simp add: enhance_request_def)
  show ?thesis
    by (intro conjI t0 t1 t2 t3 t4 t_other k0 k1 k2 k3 k4 k_other request)
qed

theorem enhance_instruction_verbatim_witness:
  "sublist
     ''Brand Tone: 'Luxury'. Emphasize elegance, premium materials (gold, marble, silk), dramatic rim lighting, depth of field, and sophistication.''
     (enhance_contents ''a red bicycle'' ''luxury'' ''16:9'') \<and>
   sublist ''wide shot, cinematic composition, panoramic view, 16:9 aspect ratio''
     (enhance_contents ''a red bicycle'' ''luxury'' ''16:9'') \<and>
   sublist ''Brand Tone: High-quality professional photography with balanced composition.''
     (enhance_contents ''a red bicycle'' ''default'' ''2:1'') \<and>
   sublist ''balanced composition'' (enhance_contents ''a red bicycle'' ''default'' ''2:1'')"
proof -
  have tone: "''default'' \<notin> set [''minimalist'', ''luxury'', ''energetic'', ''corporate'', ''playful'']"
    by simp
  have ratio: "''2:1'' \<notin> set [''16:9'', ''9:16'', ''1:1'', ''4:3'', ''3:4'']"
    by simp
  show ?thesis
    using tone ratio
      enhance_instruction_verbatim [of "''a red bicycle''" "''16:9''" "''luxury''"]
      enhance_instruction_verbatim [of "''a red bicycle''" "''2:1''" "''default''"]
    by blast
qed

text \<open>
  C7 (as amended). For every raw prompt, tone and ratio: if the external call throws,
  or its response has no text, or a text that is empty or consists of white space
  only, \<open>enhancePrompt\<close> returns the raw prompt unchanged; otherwise it returns the
  trimmed response text.
\<close>

theorem enhancePrompt_fallback:
  "(ai (enhance_request rawPrompt tone ratio) = Inl err \<longrightarrow>
      enhancePrompt ai rawPrompt tone ratio = rawPrompt) \<and>
   (ai (enhance_request rawPrompt tone ratio) = Inr response \<and> text_response response = None \<longrightarrow>
      enhancePrompt ai rawPrompt tone ratio = rawPrompt) \<and>
   (ai (enhance_request rawPrompt tone ratio) = Inr response \<and> text_response response = Some t \<and>
    trim t = [] \<longrightarrow>
      enhancePrompt ai rawPrompt tone ratio = rawPrompt) \<and>
   (ai (enhance_request rawPrompt tone ratio) = Inr response \<and> text_response response = Some t \<and>
    trim t \<noteq> [] \<longrightarrow>
      enhancePrompt ai rawPrompt tone ratio = trim t)"
  by (simp add: enhancePrompt_def or_else_def)

theorem enhancePrompt_fallback_witness:
  "enhancePrompt service_down ''a cat'' ''luxury'' ''16:9'' = ''a cat'' \<and>
   enhancePrompt (answer_text None) ''a cat'' ''luxury'' ''16:9'' = ''a cat'' \<and>
   enhancePrompt (answer_text (Some [])) ''a cat'' ''luxury'' ''16:9'' = ''a cat'' \<and>
   enhancePrompt (answer_text (Some '' a grey cat, wide shot '')) ''a cat'' ''luxury'' ''16:9'' =
     ''a grey cat, wide shot''"
  using enhancePrompt_fallback [of service_down "''a cat''" "''luxury''" "''16:9''" "Error ''fetch failed''"]
    enhancePrompt_fallback [of "answer_text None" "''a cat''" "''luxury''" "''16:9''" _
      "\<lparr>candidates = None, text_response = None\<rparr>"]
    enhancePrompt_fallback [of "answer_text (Some [])" "''a cat''" "''luxury''" "''16:9''" _
      "\<lparr>candidates = None, text_response = Some []\<rparr>" "[]"]
    enhancePrompt_fallback [of "answer_text (Some '' a grey cat, wide shot '')" "''a cat''" "''luxury''"
      "''16:9''" _ "\<lparr>candidates = None, text_response = Some '' a grey cat, wide shot ''\<rparr>"
      "'' a grey cat, wide shot ''"]
  by (simp add: service_down_def answer_text_def trim_def is_ws_def)

text \<open>
  As the claim states it, a response text that is not empty comes back trimmed. A
  text of one space is not empty; its trimmed form is the empty string, and
  \<open>enhancePrompt\<close> returns the raw prompt instead.
\<close>

theorem enhancePrompt_blank_counterexample:
  "enhancePrompt (answer_text (Some '' '')) ''a cat'' ''luxury'' ''16:9'' \<noteq> trim '' ''"
  by (simp add: enhancePrompt_def answer_text_def or_else_def trim_def is_ws_def)

section \<open>The Creative Suggestion Client\<close>

text \<open>
  C8 (as amended). For every tone and ratio, \<open>suggestCreativePrompt\<close> returns the
  trimmed response text when that trimmed text is not empty; when the call succeeds
  but the text is missing, empty or white space only, it returns the fixed floating
  city prompt; when the call throws, it returns the fixed cyberpunk detective
  prompt. The two fallbacks are different strings and depend on neither the tone nor
  the ratio.
\<close>

theorem suggestCreativePrompt_fallbacks:
  "(ai (suggest_request tone ratio) = Inl err \<longrightarrow>
      suggestCreativePrompt ai tone ratio = cyberpunk_detective) \<and>
   (ai (suggest_request tone ratio) = Inr response \<and> text_response response = None \<longrightarrow>
      suggestCreativePrompt ai tone ratio = floating_city) \<and>
   (ai (suggest_request tone ratio) = Inr response \<and> text_response response = Some t \<and>
    trim t = [] \<longrightarrow>
      suggestCreativePrompt ai tone ratio = floating_city) \<and>
   (ai (suggest_request tone ratio) = Inr response \<and> text_response response = Some t \<and>
    trim t \<noteq> [] \<longrightarrow>
      suggestCreativePrompt ai tone ratio = trim t) \<and>
   floating_city \<noteq> cyberpunk_detective"
  by (simp add: suggestCreativePrompt_def or_else_def floating_city_def cyberpunk_detective_def)

theorem suggestCreativePrompt_fallbacks_witness:
  "suggestCreativePrompt service_down ''playful'' ''9:16'' = cyberpunk_detective \<and>
   suggestCreativePrompt (answer_text None) ''playful'' ''9:16'' = floating_city \<and>
   suggestCreativePrompt (answer_text (Some [])) ''playful'' ''9:16'' = floating_city \<and>
   suggestCreativePrompt (answer_text (Some ''a paper kite '')) ''playful'' ''9:16'' = ''a paper kite''"
  using suggestCreativePrompt_fallbacks [of service_down "''playful''" "''9:16''" "Error ''fetch failed''"]
    suggestCreativePrompt_fallbacks [of "answer_text None" "''playful''" "''9:16''" _
      "\<lparr>candidates = None, text_response = None\<rparr>"]
    suggestCreativePrompt_fallbacks [of "answer_text (Some [])" "''playful''" "''9:16''" _
      "\<lparr>candidates = None, text_response = Some []\<rparr>" "[]"]
    suggestCreativePrompt_fallbacks [of "answer_text (Some ''a paper kite '')" "''playful''" "''9:16''" _
      "\<lparr>candidates = None, text_response = Some ''a paper kite ''\<rparr>" "''a paper kite ''"]
  by (simp add: service_down_def answer_text_def trim_def is_ws_def)

text \<open>
  As the claim states it, a response text that is not empty comes back trimmed. For
  a text of one space \<open>suggestCreativePrompt\<close> returns the floating city prompt.
\<close>

theorem suggestCreativePrompt_blank_counterexample:
  "suggestCreativePrompt (answer_text (Some '' '')) ''playful'' ''9:16'' \<noteq> trim '' ''"
  by (simp add: suggestCreativePrompt_def answer_text_def or_else_def trim_def is_ws_def
      floating_city_def)

section \<open>The Image Generation Client: the response\<close>

text \<open>
  C4, at a response whose list of candidates is empty. The claim says that the call
  fails with the error \<open>No image data found in response.\<close>; \<open>generateImage\<close> reads
  \<open>content\<close> of the first element of the empty array and fails with a \<open>TypeError\<close>.
\<close>

theorem generateImage_no_candidates:
  "generateImage answer_no_candidates cfg = Inl TypeError \<and>
   generateImage answer_no_candidates cfg \<noteq> Inl no_image"
  by (simp add: generateImage_def answer_no_candidates_def no_image_def)

text \<open>
  The parts of the first candidate are scanned in order: the first part that carries
  an image payload is returned behind the prefix \<open>data:image/png;base64,\<close>, wherever
  it stands in the list.
\<close>

theorem generateImage_first_image_part:
  assumes "ai (image_request cfg) = Inr response"
    and "candidates response = Some (\<lparr>content = Some \<lparr>parts = Some (before @ part # rest)\<rparr>\<rparr> # others)"
    and "list_all (\<lambda>p. image_data p = None) before"
    and "image_data part = Some d"
  shows "generateImage ai cfg = Inr (''data:image/png;base64,'' @ d)"
  using assms by (simp add: generateImage_def scan_parts_first)

theorem generateImage_first_image_part_witness:
  "generateImage
     (answer_parts [text_only ''Here is your image.'', inline_image ''iVBORw0KGgo='',
        inline_image ''R0lGODdh''])
     (config bicycle) = Inr ''data:image/png;base64,iVBORw0KGgo=''"
  using generateImage_first_image_part [of
      "answer_parts [text_only ''Here is your image.'', inline_image ''iVBORw0KGgo='',
         inline_image ''R0lGODdh'']"
      "config bicycle" _ "[text_only ''Here is your image.'']" "inline_image ''iVBORw0KGgo=''"
      "[inline_image ''R0lGODdh'']" "[]" "''iVBORw0KGgo=''"]
  by (simp add: answer_parts_def text_only_def inline_image_def image_data_def)

text \<open>
  When the response has no list of candidates, or no part of its first candidate
  carries an image payload, the call fails with the error
  \<open>No image data found in response.\<close>
\<close>

theorem generateImage_no_image:
  "(ai (image_request cfg) = Inr response \<and> candidates response = None \<longrightarrow>
      generateImage ai cfg = Inl no_image) \<and>
   (ai (image_request cfg) = Inr response \<and>
    candidates response = Some (\<lparr>content = Some \<lparr>parts = Some ps\<rparr>\<rparr> # others) \<and>
    list_all (\<lambda>p. image_data p = None) ps \<longrightarrow>
      generateImage ai cfg = Inl no_image)"
  by (auto simp: generateImage_def scan_parts_None [symmetric])

theorem generateImage_no_image_witness:
  "generateImage (answer_text None) (config bicycle) = Inl no_image \<and>
   generateImage (answer_parts [text_only ''I cannot draw that.'']) (config bicycle) = Inl no_image \<and>
   generateImage (answer_parts []) (config bicycle) = Inl no_image"
  using generateImage_no_image [of "answer_text None" "config bicycle"
      "\<lparr>candidates = None, text_response = None\<rparr>"]
    generateImage_no_image [of "answer_parts [text_only ''I cannot draw that.'']" "config bicycle"
      "\<lparr>candidates = Some [\<lparr>content = Some \<lparr>parts = Some [text_only ''I cannot draw that.'']\<rparr>\<rparr>],
        text_response = None\<rparr>" "[text_only ''I cannot draw that.'']" "[]"]
    generateImage_no_image [of "answer_parts []" "config bicycle"
      "\<lparr>candidates = Some [\<lparr>content = Some \<lparr>parts = Some []\<rparr>\<rparr>], text_response = None\<rparr>" "[]" "[]"]
  by (simp add: answer_parts_def answer_text_def text_only_def image_data_def)

section \<open>The Image Generation Client: the request\<close>

text \<open>
  C5, at the data URL of an SVG file. The claim says that the header of a reference
  image is removed before the payload is sent, as the comment in \<open>generateImage\<close>
  does (\<open>Remove data URL header if present to get raw base64\<close>). For the reference
  image \<open>data:image/svg+xml;base64,PHN2Zz4=\<close> the inline image part carries the whole
  data URL, header included, and not the payload \<open>PHN2Zz4=\<close>.
\<close>

theorem image_request_svg_header_kept:
  "request_parts
     \<lparr>prompt_cfg = ''a red bicycle'', negativePrompt_cfg = None, aspectRatio_cfg = R1_1,
      styleId = ''none'', referenceImage_cfg = Some ''data:image/svg+xml;base64,PHN2Zz4=''\<rparr> =
   [\<lparr>inlineData = Some \<lparr>data = Some ''data:image/svg+xml;base64,PHN2Zz4='',
                         mimeType = Some ''image/png''\<rparr>,
     text_part = None\<rparr>,
    \<lparr>inlineData = None, text_part = Some ''a red bicycle. ''\<rparr>] \<and>
   request_parts
     \<lparr>prompt_cfg = ''a red bicycle'', negativePrompt_cfg = None, aspectRatio_cfg = R1_1,
      styleId = ''none'', referenceImage_cfg = Some ''data:image/svg+xml;base64,PHN2Zz4=''\<rparr> \<noteq>
   [\<lparr>inlineData = Some \<lparr>data = Some ''PHN2Zz4='', mimeType = Some ''image/png''\<rparr>, text_part = None\<rparr>,
    \<lparr>inlineData = None, text_part = Some ''a red bicycle. ''\<rparr>]"
  by (simp add: request_parts_def base64Data_def is_word_def fullPrompt_def)

text \<open>
  The rest of the request is built as described. For every configuration, the text
  of the request is \<open>{prompt}. Exclude: {negativePrompt}.\<close> when the negative prompt is
  not empty and \<open>{prompt}. \<close> otherwise. When a reference image is present it is sent
  as an inline image part, declared as \<open>image/png\<close>, before the text part; otherwise
  only the text part is sent. A leading header \<open>data:image/<type>;base64,\<close> whose type
  is one or more word characters is removed. The aspect ratio of the request is that
  of the configuration.
\<close>

theorem image_request_shape:
  "imageConfig_aspectRatio (image_request cfg) = Some (aspectRatio_cfg cfg) \<and>
   contents (image_request cfg) = Parts (request_parts cfg) \<and>
   (referenceImage_cfg cfg = Some ref \<and> ref \<noteq> [] \<longrightarrow>
      request_parts cfg =
        [\<lparr>inlineData = Some \<lparr>data = Some (base64Data ref), mimeType = Some ''image/png''\<rparr>,
          text_part = None\<rparr>,
         \<lparr>inlineData = None, text_part = Some (fullPrompt cfg)\<rparr>]) \<and>
   (\<not> truthy (referenceImage_cfg cfg) \<longrightarrow>
      request_parts cfg = [\<lparr>inlineData = None, text_part = Some (fullPrompt cfg)\<rparr>]) \<and>
   (negativePrompt_cfg cfg = Some n \<and> n \<noteq> [] \<longrightarrow>
      fullPrompt cfg = prompt_cfg cfg @ ''. Exclude: '' @ n @ ''.'') \<and>
   (\<not> truthy (negativePrompt_cfg cfg) \<longrightarrow> fullPrompt cfg = prompt_cfg cfg @ ''. '') \<and>
   (w \<noteq> [] \<and> list_all is_word w \<longrightarrow>
      base64Data (''data:image/'' @ w @ '';base64,'' @ payload) = payload)"
proof -
  have request: "imageConfig_aspectRatio (image_request cfg) = Some (aspectRatio_cfg cfg) \<and>
      contents (image_request cfg) = Parts (request_parts cfg)"
    by (simp add: image_request_def)
  have with_image: "referenceImage_cfg cfg = Some ref \<and> ref \<noteq> [] \<longrightarrow>
      request_parts cfg =
        [\<lparr>inlineData = Some \<lparr>data = Some (base64Data ref), mimeType = Some ''image/png''\<rparr>,
          text_part = None\<rparr>,
         \<lparr>inlineData = None, text_part = Some (fullPrompt cfg)\<rparr>]"
    by (simp add: request_parts_def)
  have text_alone: "\<not> truthy (referenceImage_cfg cfg) \<longrightarrow>
      request_parts cfg = [\<lparr>inlineData = None, text_part = Some (fullPrompt cfg)\<rparr>]"
    by (simp add: request_parts_def truthy_def split: option.splits)
  have exclude: "negativePrompt_cfg cfg = Some n \<and> n \<noteq> [] \<longrightarrow>
      fullPrompt cfg = prompt_cfg cfg @ ''. Exclude: '' @ n @ ''.''"
    by (simp add: fullPrompt_def)
  have plain: "\<not> truthy (negativePrompt_cfg cfg) \<longrightarrow> fullPrompt cfg = prompt_cfg cfg @ ''. ''"
    by (simp add: fullPrompt_def truthy_def split: option.splits)
  have stripped: "w \<noteq> [] \<and> list_all is_word w \<longrightarrow>
      base64Data (''data:image/'' @ w @ '';base64,'' @ payload) = payload"
    using base64Data_header by blast
  show ?thesis
    by (intro conjI request [THEN conjunct1] request [THEN conjunct2] with_image text_alone
        exclude plain stripped)
qed

theorem image_request_shape_witness:
  "image_request
     \<lparr>prompt_cfg = ''a red bicycle'', negativePrompt_cfg = Some ''blurry'', aspectRatio_cfg = R16_9,
      styleId = ''none'', referenceImage_cfg = Some ''data:image/jpeg;base64,/9j/4AAQ''\<rparr> =
   \<lparr>model = ''gemini-2.5-flash-image'',
    contents = Parts
      [\<lparr>inlineData = Some \<lparr>data = Some ''/9j/4AAQ'', mimeType = Some ''image/png''\<rparr>, text_part = None\<rparr>,
       \<lparr>inlineData = None, text_part = Some ''a red bicycle. Exclude: blurry.''\<rparr>],
    imageConfig_aspectRatio = Some R16_9\<rparr> \<and>
   request_parts
     \<lparr>prompt_cfg = ''a red bicycle'', negativePrompt_cfg = None, aspectRatio_cfg = R16_9,
      styleId = ''none'', referenceImage_cfg = None\<rparr> =
   [\<lparr>inlineData = None, text_part = Some ''a red bicycle. ''\<rparr>]"
proof -
  let ?with = "\<lparr>prompt_cfg = ''a red bicycle'', negativePrompt_cfg = Some ''blurry'',
      aspectRatio_cfg = R16_9, styleId = ''none'',
      referenceImage_cfg = Some ''data:image/jpeg;base64,/9j/4AAQ''\<rparr>"
  let ?without = "\<lparr>prompt_cfg = ''a red bicycle'', negativePrompt_cfg = None,
      aspectRatio_cfg = R16_9, styleId = ''none'', referenceImage_cfg = None\<rparr>"
  have word: "''jpeg'' \<noteq> [] \<and> list_all is_word ''jpeg''"
    by (simp add: is_word_def)
  have name: "model (image_request ?with) = ''gemini-2.5-flash-image''"
    by (simp add: image_request_def modelName_def)
  show ?thesis
    using word name
      image_request_shape [where cfg = ?with and ref = "''data:image/jpeg;base64,/9j/4AAQ''"
        and n = "''blurry''" and w = "''jpeg''" and payload = "''/9j/4AAQ''"]
      image_request_shape [where cfg = ?without and w = "''jpeg''" and payload = "''/9j/4AAQ''"]
    by (simp add: truthy_def GenerateContentParameters.equality)
qed



end
